theory Spec2Isabelle
  imports Complex_Main "HOL-Library.List_Lexorder" "HOL-Library.Char_ord"
begin

section \<open>The autograder: extraction of LAB_SUMMARY and validation of lab01\<close>

text \<open>
  A shallow embedding of \<^verbatim>\<open>autograde/common.py\<close> and \<^verbatim>\<open>autograde/grade.py\<close>.

  Modelling conventions.
  \<^item> Python strings are \<open>string\<close>; the characters are taken to be ASCII, so that
    whitespace (\<^verbatim>\<open>\s\<close>, \<^verbatim>\<open>str.strip\<close>) is the code points 9-13 and 28-32 and
    \<^verbatim>\<open>str.lower\<close> maps A-Z to a-z.
  \<^item> Python values returned by \<^verbatim>\<open>ast.literal_eval\<close> are the datatype \<open>pyval\<close>.
    A float is a rational number, an infinity or NaN; \<^verbatim>\<open>float(i)\<close> of an int is
    taken to be exact (rounding to binary64 and the overflow of huge ints are not
    modelled).
  \<^item> \<^verbatim>\<open>ast.literal_eval\<close>, \<^verbatim>\<open>re.compile(title_regex, re.IGNORECASE)\<close> and
    \<^verbatim>\<open>nbformat.read\<close> are library code: they are parameters of the functions that
    call them. The fixed pattern of the extractor is modelled in full.
  \<^item> An exception that the source does not catch is the \<open>Inl\<close> branch of a sum.
  \<^item> The f-string messages are constructors of \<open>msg\<close> carrying the interpolated
    values.
\<close>

subsection \<open>Python values\<close>

datatype pyfloat = Fin rat | PInf | NInf | NaN

datatype pyval =
    PNone
  | PBool bool
  | PInt int
  | PFloat pyfloat
  | PComplex pyfloat pyfloat
  | PStr string
  | PBytes string
  | PEllipsis
  | PList "pyval list"
  | PTuple "pyval list"
  | PSet "pyval list"
  | PDict "(pyval \<times> pyval) list"

datatype pyerr =
    AttributeError | TypeError | IndexError | ValueError | OverflowError
  | ReError | ReadError

text \<open>Comparison of floats as Python does it: every comparison with NaN is false.\<close>

fun float_le :: "pyfloat \<Rightarrow> pyfloat \<Rightarrow> bool" where
  "float_le NaN _ = False"
| "float_le _ NaN = False"
| "float_le NInf _ = True"
| "float_le _ PInf = True"
| "float_le (Fin a) (Fin b) = (a \<le> b)"
| "float_le _ _ = False"


text \<open>Truth value of a Python object, as \<^verbatim>\<open>if x:\<close> tests it.\<close>

definition float_nonzero :: "pyfloat \<Rightarrow> bool" where
  "float_nonzero f = (f \<noteq> Fin 0)"

fun truthy :: "pyval \<Rightarrow> bool" where
  "truthy PNone = False"
| "truthy (PBool b) = b"
| "truthy (PInt i) = (i \<noteq> 0)"
| "truthy (PFloat f) = float_nonzero f"
| "truthy (PComplex re im) = (float_nonzero re \<or> float_nonzero im)"
| "truthy (PStr s) = (s \<noteq> [])"
| "truthy (PBytes s) = (s \<noteq> [])"
| "truthy PEllipsis = True"
| "truthy (PList xs) = (xs \<noteq> [])"
| "truthy (PTuple xs) = (xs \<noteq> [])"
| "truthy (PSet xs) = (xs \<noteq> [])"
| "truthy (PDict kvs) = (kvs \<noteq> [])"

text \<open>
  \<open>PDict\<close> holds the items of a dict object. Every key looked up by the source is a
  string, which is equal only to an equal string.
\<close>

definition dict_get :: "(pyval \<times> pyval) list \<Rightarrow> string \<Rightarrow> pyval option" where
  "dict_get d k = map_of d (PStr k)"

definition has_key :: "(pyval \<times> pyval) list \<Rightarrow> string \<Rightarrow> bool" where
  "has_key d k = (dict_get d k \<noteq> None)"

subsection \<open>Characters and strings\<close>

definition is_space :: "char \<Rightarrow> bool" where
  "is_space c = (let n = (of_char c :: nat) in (9 \<le> n \<and> n \<le> 13) \<or> (28 \<le> n \<and> n \<le> 32))"

definition newline :: char where
  "newline = CHR 0x0A"

definition lbrace :: char where
  "lbrace = CHR ''{''"

definition rbrace :: char where
  "rbrace = CHR ''}''"

definition strip :: "string \<Rightarrow> string" where
  "strip s = rev (dropWhile is_space (rev (dropWhile is_space s)))"

definition lower_char :: "char \<Rightarrow> char" where
  "lower_char c = (let n = (of_char c :: nat) in if 65 \<le> n \<and> n \<le> 90 then char_of (n + 32) else c)"

definition lower :: "string \<Rightarrow> string" where
  "lower s = map lower_char s"

subsection \<open>common.py: the extractor\<close>

text \<open>
  The pattern \<^verbatim>\<open>VAR\s*=\s*({.*})\s*$\<close> with \<^verbatim>\<open>re.DOTALL | re.MULTILINE\<close>.
  \<open>tail_ok\<close> is \<^verbatim>\<open>\s*$\<close>: whitespace up to the end of the text or up to a newline
  (\<^verbatim>\<open>$\<close> matches before every newline in multi-line mode).
\<close>

fun tail_ok :: "string \<Rightarrow> bool" where
  "tail_ok [] = True"
| "tail_ok (c # cs) = (c = newline \<or> (is_space c \<and> tail_ok cs))"

text \<open>
  The greedy \<^verbatim>\<open>.*}\<close> over the text after the opening brace: the length of the
  longest prefix that ends in a closing brace after which \<open>tail_ok\<close> holds.
\<close>

fun last_close :: "string \<Rightarrow> nat option" where
  "last_close [] = None"
| "last_close (c # cs) =
     (case last_close cs of
        Some n \<Rightarrow> Some (Suc n)
      | None \<Rightarrow> if c = rbrace \<and> tail_ok cs then Some 1 else None)"

text \<open>A match of the whole pattern at the start of \<open>s\<close>; the result is group 1.\<close>

definition match_here :: "string \<Rightarrow> string \<Rightarrow> string option" where
  "match_here varname s =
     (if take (length varname) s = varname then
        (case dropWhile is_space (drop (length varname) s) of
           [] \<Rightarrow> None
         | e # s2 \<Rightarrow>
             if e = CHR ''='' then
               (case dropWhile is_space s2 of
                  [] \<Rightarrow> None
                | b # s4 \<Rightarrow>
                    if b = lbrace then
                      (case last_close s4 of
                         None \<Rightarrow> None
                       | Some n \<Rightarrow> Some (lbrace # take n s4))
                    else None)
             else None)
      else None)"

text \<open>\<^verbatim>\<open>pattern.search(code)\<close>: the leftmost position at which the pattern matches.\<close>

fun pattern_search :: "string \<Rightarrow> string \<Rightarrow> string option" where
  "pattern_search varname [] = match_here varname []"
| "pattern_search varname (c # cs) =
     (case match_here varname (c # cs) of
        Some g \<Rightarrow> Some g
      | None \<Rightarrow> pattern_search varname cs)"

text \<open>\<^verbatim>\<open>raw.find("{")\<close>, with \<open>None\<close> for the source's -1.\<close>

fun find_lbrace :: "string \<Rightarrow> nat option" where
  "find_lbrace [] = None"
| "find_lbrace (c # cs) =
     (if c = lbrace then Some 0 else map_option Suc (find_lbrace cs))"

text \<open>
  The loop \<^verbatim>\<open>for i, ch in enumerate(raw[start:], start=start)\<close> over the rest of the
  text, with the index \<open>i\<close> and the depth \<open>d\<close> as loop state; \<open>None\<close> is the source's
  \<^verbatim>\<open>end is None\<close>.
\<close>

fun scan :: "string \<Rightarrow> nat \<Rightarrow> int \<Rightarrow> nat option" where
  "scan [] i d = None"
| "scan (ch # cs) i d =
     (if ch = lbrace then scan cs (i + 1) (d + 1)
      else if ch = rbrace then
        (if d - 1 = 0 then Some (i + 1) else scan cs (i + 1) (d - 1))
      else scan cs (i + 1) d)"

definition balanced_end :: "string \<Rightarrow> nat \<Rightarrow> nat option" where
  "balanced_end raw start = scan (drop start raw) start 0"

definition slice :: "string \<Rightarrow> nat \<Rightarrow> nat \<Rightarrow> string" where
  "slice raw start end = take (end - start) (drop start raw)"

definition parse_error_sentinel :: pyval where
  "parse_error_sentinel = PDict [(PStr ''__parse_error__'', PBool True)]"

text \<open>
  \<open>leval\<close> is \<^verbatim>\<open>ast.literal_eval\<close>: \<open>None\<close> when it raises. The result \<open>None\<close> of the
  function is Python's \<^verbatim>\<open>None\<close>.
\<close>

definition extract_dict_literal_from_code ::
  "(string \<Rightarrow> pyval option) \<Rightarrow> string \<Rightarrow> string \<Rightarrow> pyval option" where
  "extract_dict_literal_from_code leval code varname =
     (case pattern_search varname code of
        None \<Rightarrow> None
      | Some raw \<Rightarrow>
          (case leval raw of
             Some v \<Rightarrow> Some v
           | None \<Rightarrow>
               (case find_lbrace raw of
                  None \<Rightarrow> None
                | Some start \<Rightarrow>
                    (case balanced_end raw start of
                       None \<Rightarrow> None
                     | Some e \<Rightarrow>
                         (case leval (slice raw start e) of
                            Some v \<Rightarrow> Some v
                          | None \<Rightarrow> Some parse_error_sentinel)))))"

record cell =
  cell_type :: string
  source :: string

fun extract_lab_summary ::
  "(string \<Rightarrow> pyval option) \<Rightarrow> cell list \<Rightarrow> string \<Rightarrow> pyval option" where
  "extract_lab_summary leval [] varname = None"
| "extract_lab_summary leval (c # cs) varname =
     (if cell_type c \<noteq> ''code'' then extract_lab_summary leval cs varname
      else
        (case extract_dict_literal_from_code leval (source c) varname of
           Some d \<Rightarrow> Some d
         | None \<Rightarrow> extract_lab_summary leval cs varname))"

text \<open>
  \<^verbatim>\<open>find_markdown_section_text\<close>. \<open>rx\<close> is the compiled pattern's \<^verbatim>\<open>search\<close>
  (case-insensitive, anywhere in the text) as a predicate on the text.
\<close>

fun join_blank :: "string list \<Rightarrow> string" where
  "join_blank [] = []"
| "join_blank [t] = t"
| "join_blank (t # ts) = t @ [newline, newline] @ join_blank ts"

fun collect_texts :: "(string \<Rightarrow> bool) \<Rightarrow> cell list \<Rightarrow> string list \<Rightarrow> string list" where
  "collect_texts rx [] texts = texts"
| "collect_texts rx (c # cs) texts =
     (if cell_type c \<noteq> ''markdown'' then collect_texts rx cs texts
      else if rx (source c) then collect_texts rx cs (texts @ [source c])
      else collect_texts rx cs texts)"

definition find_markdown_section_text :: "(string \<Rightarrow> bool) \<Rightarrow> cell list \<Rightarrow> string" where
  "find_markdown_section_text rx cells = strip (join_blank (collect_texts rx cells []))"

subsection \<open>common.py: the result record and the generic validators\<close>

datatype status = PASS | FAIL

text \<open>The messages of the source, each with the values its f-string interpolates.\<close>

datatype msg =
    NotFound                               \<comment> \<open>No se encontro LAB_SUMMARY en el notebook.\<close>
  | Unparseable                            \<comment> \<open>LAB_SUMMARY existe pero no pude parsearlo ...\<close>
  | MissingKey string                      \<comment> \<open>Falta clave obligatoria: 'k'\<close>
  | NotNumeric string                      \<comment> \<open>'key' debe ser numerico.\<close>
  | OutOfRange string pyfloat pyfloat pyval \<comment> \<open>'key' fuera de rango [lo, hi]. Valor=v\<close>
  | CleanShapeBad                          \<comment> \<open>'clean_shape' debe ser [n_filas, n_cols].\<close>
  | CleanShapeRowsNotNumeric               \<comment> \<open>'clean_shape[0]' debe ser numerico.\<close>
  | FewRows pyval                          \<comment> \<open>clean_shape tiene pocas filas (nrows) ...\<close>
  | EffectBad                              \<comment> \<open>effect debe ser dict con name, value.\<close>
  | EffectValueNotNumeric                  \<comment> \<open>effect['value'] debe ser numerico.\<close>
  | CIBad                                  \<comment> \<open>bootstrap_ci_diff debe ser [lo, hi].\<close>
  | CINotNumbers                           \<comment> \<open>bootstrap_ci_diff debe contener numeros.\<close>
  | CIOrder                                \<comment> \<open>bootstrap_ci_diff invalido: lo >= hi.\<close>
  | DashboardNotDict                       \<comment> \<open>dashboard debe ser un dict.\<close>
  | FiltersNotList                         \<comment> \<open>dashboard['filters'] debe ser lista.\<close>
  | MissingFilters "string list"           \<comment> \<open>dashboard.filters no incluye: sorted(missing)\<close>
  | ChartsNotList                          \<comment> \<open>dashboard['charts'] debe ser lista.\<close>
  | FewCharts int                          \<comment> \<open>dashboard.charts tiene menos de n graficos.\<close>
  | StudentMismatch string string          \<comment> \<open>LAB_SUMMARY['student']='s' no coincide con carpeta 'c'.\<close>
  | ReportShort nat int                    \<comment> \<open>Mini-reporte muy corto o ausente (palabras=wc, minimo=n).\<close>
  | ReadFailed pyerr                       \<comment> \<open>No pude leer el notebook: e\<close>
  | NoValidator string                     \<comment> \<open>No hay validador implementado para lab ...\<close>

record grade_result =
  student :: string
  path :: string
  lab :: string
  status :: status
  score :: rat
  errors :: "msg list"
  warnings :: "msg list"

text \<open>\<^verbatim>\<open>GradeResult(student=..., path=..., lab=...)\<close> with the defaults of the dataclass.\<close>

definition GradeResult :: "string \<Rightarrow> string \<Rightarrow> string \<Rightarrow> grade_result" where
  "GradeResult st p l =
     \<lparr>student = st, path = p, lab = l, status = PASS, score = 1, errors = [], warnings = []\<rparr>"

definition add_error :: "msg \<Rightarrow> grade_result \<Rightarrow> grade_result" where
  "add_error m r = r\<lparr>errors := errors r @ [m]\<rparr>"

definition add_warning :: "msg \<Rightarrow> grade_result \<Rightarrow> grade_result" where
  "add_warning m r = r\<lparr>warnings := warnings r @ [m]\<rparr>"

text \<open>Numbers: an int or a float, never a bool (\<^verbatim>\<open>is_number\<close>).\<close>

datatype pynum = NInt int | NFloat pyfloat

fun as_number :: "pyval \<Rightarrow> pynum option" where
  "as_number (PInt i) = Some (NInt i)"
| "as_number (PFloat f) = Some (NFloat f)"
| "as_number _ = None"

definition is_number :: "pyval \<Rightarrow> bool" where
  "is_number x = (as_number x \<noteq> None)"

text \<open>\<^verbatim>\<open>float(x)\<close> and \<^verbatim>\<open>int(x)\<close> of a number.\<close>

fun num_float :: "pynum \<Rightarrow> pyfloat" where
  "num_float (NInt i) = Fin (of_int i)"
| "num_float (NFloat f) = f"

definition trunc :: "rat \<Rightarrow> int" where
  "trunc r = (if 0 \<le> r then \<lfloor>r\<rfloor> else \<lceil>r\<rceil>)"

fun num_int :: "pynum \<Rightarrow> pyerr + int" where
  "num_int (NInt i) = Inr i"
| "num_int (NFloat (Fin r)) = Inr (trunc r)"
| "num_int (NFloat PInf) = Inl OverflowError"
| "num_int (NFloat NInf) = Inl OverflowError"
| "num_int (NFloat NaN) = Inl ValueError"

fun require_keys :: "(pyval \<times> pyval) list \<Rightarrow> string list \<Rightarrow> msg list" where
  "require_keys d [] = []"
| "require_keys d (k # ks) =
     (if \<not> has_key d k then MissingKey k # require_keys d ks else require_keys d ks)"

definition require_number_range ::
  "(pyval \<times> pyval) list \<Rightarrow> string \<Rightarrow> pyfloat \<Rightarrow> pyfloat \<Rightarrow> msg option" where
  "require_number_range d key lo hi =
     (case dict_get d key of
        None \<Rightarrow> None
      | Some v \<Rightarrow>
          (case as_number v of
             None \<Rightarrow> Some (NotNumeric key)
           | Some n \<Rightarrow>
               if \<not> (float_le lo (num_float n) \<and> float_le (num_float n) hi)
               then Some (OutOfRange key lo hi v)
               else None))"

subsection \<open>grade.py\<close>

text \<open>
  The spec file, \<^verbatim>\<open>specs/lab01.json\<close>, is read as a record with the types the
  validator expects; a field that the JSON object omits is \<open>None\<close>, and the source's
  \<^verbatim>\<open>.get(key, default)\<close> supplies the default.
\<close>

record rules_spec =
  pvalue_range :: "pynum list option"
  alpha_range :: "pynum list option"
  min_rows_clean :: "pynum option"
  ci_requires_order :: "pyval option"
  dashboard_filters_required :: "string list option"
  dashboard_charts_min :: "pynum option"

record report_spec =
  require_markdown_title_regex :: "string option"
  min_words_in_report_cell :: "pynum option"

record lab_spec =
  summary_var :: "string option"
  required_keys :: "string list option"
  rules :: "rules_spec option"
  report :: "report_spec option"

definition empty_rules :: rules_spec where
  "empty_rules = \<lparr>pvalue_range = None, alpha_range = None, min_rows_clean = None,
     ci_requires_order = None, dashboard_filters_required = None,
     dashboard_charts_min = None\<rparr>"

definition empty_report :: report_spec where
  "empty_report = \<lparr>require_markdown_title_regex = None, min_words_in_report_cell = None\<rparr>"

definition get_or :: "'a option \<Rightarrow> 'a \<Rightarrow> 'a" where
  "get_or x dflt = (case x of None \<Rightarrow> dflt | Some v \<Rightarrow> v)"

definition then_do :: "pyerr + 'a \<Rightarrow> ('a \<Rightarrow> pyerr + 'b) \<Rightarrow> pyerr + 'b" where
  "then_do m f = (case m of Inl e \<Rightarrow> Inl e | Inr x \<Rightarrow> f x)"

definition space :: char where
  "space = CHR '' ''"

fun split_on :: "char \<Rightarrow> string \<Rightarrow> string list" where
  "split_on sep [] = [[]]"
| "split_on sep (c # cs) =
     (if c = sep then [] # split_on sep cs
      else (c # hd (split_on sep cs)) # tl (split_on sep cs))"

definition count_words :: "string \<Rightarrow> nat" where
  "count_words text =
     (if text = [] then 0
      else length (filter (\<lambda>w. strip w \<noteq> [])
             (split_on space (map (\<lambda>c. if c = newline then space else c) text))))"

text \<open>\<^verbatim>\<open>float(pr[0]), float(pr[1])\<close>: an index out of range raises.\<close>

fun range_bounds :: "pynum list \<Rightarrow> pyerr + (pyfloat \<times> pyfloat)" where
  "range_bounds (a # b # _) = Inr (num_float a, num_float b)"
| "range_bounds _ = Inl IndexError"

fun as_seq :: "pyval \<Rightarrow> pyval list option" where
  "as_seq (PList xs) = Some xs"
| "as_seq (PTuple xs) = Some xs"
| "as_seq _ = None"

fun hashable :: "pyval \<Rightarrow> bool" where
  "hashable (PList xs) = False"
| "hashable (PSet xs) = False"
| "hashable (PDict kvs) = False"
| "hashable (PTuple xs) = (\<forall>x \<in> set xs. hashable x)"
| "hashable _ = True"

definition score_of_warnings :: "nat \<Rightarrow> rat" where
  "score_of_warnings w = max (7 / 10) (1 - (5 / 100) * of_nat w)"

text \<open>
  The blocks of \<^verbatim>\<open>validate_lab01\<close> after the two early returns, in the order of
  the source. Each takes the result record and returns it updated, or raises.
\<close>

definition check_required_keys ::
  "lab_spec \<Rightarrow> (pyval \<times> pyval) list \<Rightarrow> grade_result \<Rightarrow> grade_result" where
  "check_required_keys spec summary result =
     result\<lparr>errors := errors result @ require_keys summary (get_or (required_keys spec) [])\<rparr>"

definition default_range :: "pynum list" where
  "default_range = [NFloat (Fin 0), NFloat (Fin 1)]"

definition append_opt_error :: "msg option \<Rightarrow> grade_result \<Rightarrow> grade_result" where
  "append_opt_error err result = (case err of None \<Rightarrow> result | Some m \<Rightarrow> add_error m result)"

definition check_ranges ::
  "rules_spec \<Rightarrow> (pyval \<times> pyval) list \<Rightarrow> grade_result \<Rightarrow> pyerr + grade_result" where
  "check_ranges rls summary result =
     (let pr = get_or (pvalue_range rls) default_range;
          ar = get_or (alpha_range rls) default_range
      in then_do (range_bounds pr) (\<lambda>(plo, phi).
           let result1 = append_opt_error (require_number_range summary ''pvalue'' plo phi) result
           in then_do (range_bounds ar) (\<lambda>(alo, ahi).
                Inr (append_opt_error (require_number_range summary ''alpha'' alo ahi) result1))))"

definition check_clean_shape ::
  "rules_spec \<Rightarrow> (pyval \<times> pyval) list \<Rightarrow> grade_result \<Rightarrow> pyerr + grade_result" where
  "check_clean_shape rls summary result =
     (case dict_get summary ''clean_shape'' of
        None \<Rightarrow> Inr result
      | Some sh \<Rightarrow>
          (case as_seq sh of
             None \<Rightarrow> Inr (add_error CleanShapeBad result)
           | Some xs \<Rightarrow>
               if length xs \<noteq> 2 then Inr (add_error CleanShapeBad result)
               else
                 (let nrows = xs ! 0 in
                  case as_number nrows of
                    None \<Rightarrow> Inr (add_error CleanShapeRowsNotNumeric result)
                  | Some n \<Rightarrow>
                      then_do (num_int (get_or (min_rows_clean rls) (NInt 1))) (\<lambda>min_rows.
                        then_do (num_int n) (\<lambda>r.
                          if r < min_rows then Inr (add_warning (FewRows nrows) result)
                          else Inr result)))))"

definition check_effect :: "(pyval \<times> pyval) list \<Rightarrow> grade_result \<Rightarrow> grade_result" where
  "check_effect summary result =
     (case dict_get summary ''effect'' of
        None \<Rightarrow> result
      | Some eff \<Rightarrow>
          (case eff of
             PDict e \<Rightarrow>
               (case (dict_get e ''name'', dict_get e ''value'') of
                  (Some _, Some v) \<Rightarrow>
                    if \<not> is_number v then add_error EffectValueNotNumeric result else result
                | _ \<Rightarrow> add_error EffectBad result)
           | _ \<Rightarrow> add_error EffectBad result))"

definition check_ci ::
  "rules_spec \<Rightarrow> (pyval \<times> pyval) list \<Rightarrow> grade_result \<Rightarrow> grade_result" where
  "check_ci rls summary result =
     (case dict_get summary ''bootstrap_ci_diff'' of
        None \<Rightarrow> result
      | Some ci \<Rightarrow>
          (case as_seq ci of
             None \<Rightarrow> add_error CIBad result
           | Some xs \<Rightarrow>
               if length xs \<noteq> 2 then add_error CIBad result
               else
                 (case (as_number (xs ! 0), as_number (xs ! 1)) of
                    (Some lo, Some hi) \<Rightarrow>
                      if truthy (get_or (ci_requires_order rls) (PBool True))
                         \<and> float_le (num_float hi) (num_float lo)
                      then add_error CIOrder result
                      else result
                  | _ \<Rightarrow> add_error CINotNumbers result)))"

text \<open>
  \<^verbatim>\<open>filters_req - set(filters)\<close>, then \<^verbatim>\<open>sorted(missing)\<close>; \<^verbatim>\<open>set(filters)\<close> raises
  on an unhashable element.
\<close>

definition missing_filters :: "string list \<Rightarrow> pyval list \<Rightarrow> string list" where
  "missing_filters req filters = sort (remdups (filter (\<lambda>f. PStr f \<notin> set filters) req))"

definition check_filters ::
  "rules_spec \<Rightarrow> (pyval \<times> pyval) list \<Rightarrow> grade_result \<Rightarrow> pyerr + grade_result" where
  "check_filters rls dash result =
     (let filters_req = get_or (dashboard_filters_required rls) [];
          filters = get_or (dict_get dash ''filters'') (PList [])
      in case filters of
           PList fs \<Rightarrow>
             if \<not> (\<forall>f \<in> set fs. hashable f) then Inl TypeError
             else
               (let missing = missing_filters filters_req fs in
                if missing \<noteq> [] then Inr (add_warning (MissingFilters missing) result)
                else Inr result)
         | _ \<Rightarrow> Inr (add_error FiltersNotList result))"

definition check_charts ::
  "rules_spec \<Rightarrow> (pyval \<times> pyval) list \<Rightarrow> grade_result \<Rightarrow> pyerr + grade_result" where
  "check_charts rls dash result =
     (let charts = get_or (dict_get dash ''charts'') (PList [])
      in case charts of
           PList cs \<Rightarrow>
             then_do (num_int (get_or (dashboard_charts_min rls) (NInt 0))) (\<lambda>min_charts.
               if int (length cs) < min_charts
               then Inr (add_warning (FewCharts min_charts) result)
               else Inr result)
         | _ \<Rightarrow> Inr (add_error ChartsNotList result))"

definition check_dashboard ::
  "rules_spec \<Rightarrow> (pyval \<times> pyval) list \<Rightarrow> grade_result \<Rightarrow> pyerr + grade_result" where
  "check_dashboard rls summary result =
     (case dict_get summary ''dashboard'' of
        None \<Rightarrow> Inr result
      | Some dash \<Rightarrow>
          (case dash of
             PDict d \<Rightarrow> then_do (check_filters rls d result) (check_charts rls d)
           | _ \<Rightarrow> Inr (add_error DashboardNotDict result)))"

definition check_student :: "(pyval \<times> pyval) list \<Rightarrow> grade_result \<Rightarrow> grade_result" where
  "check_student summary result =
     (case dict_get summary ''student'' of
        Some (PStr s) \<Rightarrow>
          if lower (strip s) \<noteq> lower (strip (student result))
          then add_warning (StudentMismatch s (student result)) result
          else result
      | _ \<Rightarrow> result)"

text \<open>
  \<^verbatim>\<open>min_words = int(report_spec.get("min_words_in_report_cell", 0))\<close>; in
  \<^verbatim>\<open>validate_lab01\<close> the value is computed and not used.
\<close>

definition report_min_words :: "lab_spec \<Rightarrow> pyerr + int" where
  "report_min_words spec =
     num_int (get_or (min_words_in_report_cell (get_or (report spec) empty_report)) (NInt 0))"

definition final_status :: "grade_result \<Rightarrow> grade_result" where
  "final_status result =
     (if errors result \<noteq> [] then result\<lparr>status := FAIL, score := 0\<rparr>
      else result\<lparr>status := PASS, score := score_of_warnings (length (warnings result))\<rparr>)"

definition structural_checks ::
  "lab_spec \<Rightarrow> (pyval \<times> pyval) list \<Rightarrow> grade_result \<Rightarrow> pyerr + grade_result" where
  "structural_checks spec summary result =
     (let rls = get_or (rules spec) empty_rules in
      then_do (check_ranges rls summary (check_required_keys spec summary result)) (\<lambda>r1.
      then_do (check_clean_shape rls summary r1) (\<lambda>r2.
      then_do (check_dashboard rls summary (check_ci rls summary (check_effect summary r2))) (\<lambda>r3.
      then_do (report_min_words spec) (\<lambda>_.
        Inr (final_status (check_student summary r3)))))))"

text \<open>
  \<^verbatim>\<open>validate_lab01\<close>. \<open>None\<close> is Python's \<^verbatim>\<open>None\<close>; \<^verbatim>\<open>summary.get\<close> exists on a
  dict only.
\<close>

definition validate_lab01 ::
  "pyval option \<Rightarrow> lab_spec \<Rightarrow> grade_result \<Rightarrow> pyerr + grade_result" where
  "validate_lab01 summary spec result =
     (case summary of
        None \<Rightarrow> Inr (add_error NotFound (result\<lparr>status := FAIL, score := 0\<rparr>))
      | Some (PDict d) \<Rightarrow>
          if (case dict_get d ''__parse_error__'' of None \<Rightarrow> False | Some v \<Rightarrow> truthy v)
          then Inr (add_error Unparseable (result\<lparr>status := FAIL, score := 0\<rparr>))
          else structural_checks spec d result
      | Some _ \<Rightarrow> Inl AttributeError)"

text \<open>
  \<^verbatim>\<open>validate_report\<close>. \<open>rx_compile\<close> is \<^verbatim>\<open>re.compile(title_regex, re.IGNORECASE)\<close>:
  \<open>None\<close> when the pattern is not a regular expression, else the search predicate.
\<close>

definition validate_report ::
  "(string \<Rightarrow> (string \<Rightarrow> bool) option) \<Rightarrow> cell list \<Rightarrow> lab_spec \<Rightarrow> grade_result
     \<Rightarrow> pyerr + grade_result" where
  "validate_report rx_compile nb spec result =
     (let report_spec = get_or (report spec) empty_report;
          title_rx = get_or (require_markdown_title_regex report_spec) []
      in then_do (num_int (get_or (min_words_in_report_cell report_spec) (NInt 0))) (\<lambda>min_words.
           if title_rx = [] \<or> min_words \<le> 0 then Inr result
           else
             (case rx_compile title_rx of
                None \<Rightarrow> Inl ReError
              | Some rx \<Rightarrow>
                  (let text = find_markdown_section_text rx nb;
                       wc = count_words text
                   in if int wc < min_words
                      then Inr (add_warning (ReportShort wc min_words) result)
                      else Inr result))))"

text \<open>
  The body of the loop of \<^verbatim>\<open>main\<close> for one path. \<open>nb_read\<close> is what
  \<^verbatim>\<open>read_notebook(nb_path)\<close> gives: the cells, or the exception that \<^verbatim>\<open>main\<close>
  catches. The result is the record appended to \<^verbatim>\<open>results\<close>, or the exception that
  leaves \<^verbatim>\<open>main\<close>.
\<close>

definition grade_one ::
  "(string \<Rightarrow> pyval option) \<Rightarrow> (string \<Rightarrow> (string \<Rightarrow> bool) option) \<Rightarrow> lab_spec \<Rightarrow> string
     \<Rightarrow> string \<Rightarrow> string \<Rightarrow> pyerr + cell list \<Rightarrow> pyerr + grade_result" where
  "grade_one leval rx_compile spec lab_name st p nb_read =
     (let gr = GradeResult st p lab_name in
      case nb_read of
        Inl e \<Rightarrow> Inr (add_error (ReadFailed e) (gr\<lparr>status := FAIL, score := 0\<rparr>))
      | Inr nb \<Rightarrow>
          (let summary = extract_lab_summary leval nb (get_or (summary_var spec) ''LAB_SUMMARY'')
           in if lab_name = ''lab01'' then
                then_do (validate_lab01 summary spec gr) (validate_report rx_compile nb spec)
              else Inr (add_error (NoValidator lab_name) (gr\<lparr>status := FAIL, score := 0\<rparr>))))"

subsection \<open>Notions used to state the properties, and inputs for the examples\<close>


text \<open>
  The values of \<^verbatim>\<open>ast.literal_eval\<close> on the texts that the examples below pass to
  it: \<^verbatim>\<open>{}\<close> is the empty dict, and \<^verbatim>\<open>{{}\<close> is a syntax error.
\<close>

definition leval_ex :: "string \<Rightarrow> pyval option" where
  "leval_ex s = (if s = ''{}'' then Some (PDict []) else None)"

definition code_cell :: "string \<Rightarrow> cell" where
  "code_cell src = \<lparr>cell_type = ''code'', source = src\<rparr>"

definition markdown_cell :: "string \<Rightarrow> cell" where
  "markdown_cell src = \<lparr>cell_type = ''markdown'', source = src\<rparr>"

text \<open>The keys named by the missing-key errors of a list of messages, in order.\<close>

fun missing_key_name :: "msg \<Rightarrow> string list" where
  "missing_key_name (MissingKey k) = [k]"
| "missing_key_name _ = []"

definition missing_keys_of :: "msg list \<Rightarrow> string list" where
  "missing_keys_of ms = concat (map missing_key_name ms)"

text \<open>
  The test of the second early return of \<^verbatim>\<open>validate_lab01\<close>:
  \<^verbatim>\<open>summary.get("__parse_error__")\<close> is true.
\<close>

definition sentinel_like :: "(pyval \<times> pyval) list \<Rightarrow> bool" where
  "sentinel_like d = (case dict_get d ''__parse_error__'' of None \<Rightarrow> False | Some v \<Rightarrow> truthy v)"

text \<open>
  What a block of \<^verbatim>\<open>validate_lab01\<close> may do to the result: append errors other than
  missing-key errors, append warnings, and leave the student as it is.
\<close>

definition extends :: "grade_result \<Rightarrow> grade_result \<Rightarrow> bool" where
  "extends r r' \<longleftrightarrow>
     (\<exists>es ws. errors r' = errors r @ es \<and> missing_keys_of es = []
        \<and> warnings r' = warnings r @ ws \<and> student r' = student r)"

text \<open>
  For the examples: \<^verbatim>\<open>re.compile(p, re.IGNORECASE).search\<close> for a pattern \<open>p\<close> of
  letters only finds \<open>p\<close> as a substring, whatever the case of the letters.
\<close>

fun occurs :: "string \<Rightarrow> string \<Rightarrow> bool" where
  "occurs p [] = (p = [])"
| "occurs p (c # cs) = (take (length p) (c # cs) = p \<or> occurs p cs)"

definition rx_literal :: "string \<Rightarrow> (string \<Rightarrow> bool) option" where
  "rx_literal p = Some (\<lambda>t. occurs (lower p) (lower t))"

definition report_only_spec :: lab_spec where
  "report_only_spec =
     \<lparr>summary_var = None, required_keys = None, rules = None,
      report = Some \<lparr>require_markdown_title_regex = Some ''Reporte'',
                     min_words_in_report_cell = Some (NInt 5)\<rparr>\<rparr>"

definition pvalue_spec :: lab_spec where
  "pvalue_spec = \<lparr>summary_var = None, required_keys = Some [''pvalue'', ''alpha''],
     rules = None, report = None\<rparr>"

definition rx_reporte :: "string \<Rightarrow> bool" where
  "rx_reporte t = occurs ''reporte'' (lower t)"

section \<open>Properties\<close>

subsection \<open>The balanced scan and the extractor\<close>










lemma match_here_shape: "match_here v s = Some raw \<Longrightarrow> \<exists>rest. raw = lbrace # rest"
  by (auto simp: match_here_def split: if_splits list.splits option.splits)

lemma pattern_search_shape: "pattern_search v code = Some raw \<Longrightarrow> \<exists>rest. raw = lbrace # rest"
  by (induction code) (auto dest: match_here_shape split: option.splits)

lemma extract_dict_None_iff:
  "extract_dict_literal_from_code leval code v = None \<longleftrightarrow>
     (pattern_search v code = None
      \<or> (\<exists>raw. pattern_search v code = Some raw \<and> leval raw = None \<and> balanced_end raw 0 = None))"
proof (cases "pattern_search v code")
  case None
  then show ?thesis by (simp add: extract_dict_literal_from_code_def)
next
  case (Some raw)
  then obtain rest where "raw = lbrace # rest" using pattern_search_shape by blast
  then have "find_lbrace raw = Some 0" by simp
  then show ?thesis using Some
    by (auto simp: extract_dict_literal_from_code_def split: option.splits)
qed

lemma extract_lab_summary_None_iff:
  "extract_lab_summary leval cells v = None \<longleftrightarrow>
     (\<forall>c \<in> set cells. cell_type c = ''code'' \<longrightarrow>
        extract_dict_literal_from_code leval (source c) v = None)"
  by (induction cells) (auto split: option.splits)

lemma extract_lab_summary_Some_iff:
  "extract_lab_summary leval cells v = Some d \<longleftrightarrow>
     (\<exists>pre c post. cells = pre @ c # post \<and> cell_type c = ''code''
        \<and> extract_dict_literal_from_code leval (source c) v = Some d
        \<and> (\<forall>c' \<in> set pre. cell_type c' = ''code'' \<longrightarrow>
              extract_dict_literal_from_code leval (source c') v = None))"
proof (induction cells)
  case Nil
  then show ?case by simp
next
  case (Cons a cells)
  let ?skip = "cell_type a \<noteq> ''code'' \<or> extract_dict_literal_from_code leval (source a) v = None"
  let ?Q = "\<lambda>cs. \<exists>pre c post. cs = pre @ c # post \<and> cell_type c = ''code''
        \<and> extract_dict_literal_from_code leval (source c) v = Some d
        \<and> (\<forall>c' \<in> set pre. cell_type c' = ''code'' \<longrightarrow>
              extract_dict_literal_from_code leval (source c') v = None)"
  show ?case
  proof (cases ?skip)
    case True
    then have e: "extract_lab_summary leval (a # cells) v = extract_lab_summary leval cells v"
      by (auto split: option.splits)
    have "?Q (a # cells) \<longleftrightarrow> ?Q cells"
    proof
      assume "?Q (a # cells)"
      then obtain pre c post where p: "a # cells = pre @ c # post" "cell_type c = ''code''"
        "extract_dict_literal_from_code leval (source c) v = Some d"
        "\<forall>c' \<in> set pre. cell_type c' = ''code'' \<longrightarrow>
              extract_dict_literal_from_code leval (source c') v = None" by blast
      have "pre \<noteq> []" using p True by (cases pre) auto
      then obtain pre' where pre: "pre = a # pre'" using p(1) by (cases pre) auto
      then have "cells = pre' @ c # post" using p(1) by simp
      then show "?Q cells" using p pre by auto
    next
      assume "?Q cells"
      then obtain pre c post where p: "cells = pre @ c # post" "cell_type c = ''code''"
        "extract_dict_literal_from_code leval (source c) v = Some d"
        "\<forall>c' \<in> set pre. cell_type c' = ''code'' \<longrightarrow>
              extract_dict_literal_from_code leval (source c') v = None" by blast
      have "a # cells = (a # pre) @ c # post" using p(1) by simp
      moreover have "\<forall>c' \<in> set (a # pre). cell_type c' = ''code'' \<longrightarrow>
              extract_dict_literal_from_code leval (source c') v = None" using p(4) True by auto
      ultimately show "?Q (a # cells)" using p(2,3) by blast
    qed
    then show ?thesis using e Cons.IH by simp
  next
    case False
    then obtain d' where d': "cell_type a = ''code''"
      "extract_dict_literal_from_code leval (source a) v = Some d'" by auto
    then have e: "extract_lab_summary leval (a # cells) v = Some d'" by simp
    have "?Q (a # cells) \<longleftrightarrow> d' = d"
    proof
      assume "?Q (a # cells)"
      then obtain pre c post where p: "a # cells = pre @ c # post" "cell_type c = ''code''"
        "extract_dict_literal_from_code leval (source c) v = Some d"
        "\<forall>c' \<in> set pre. cell_type c' = ''code'' \<longrightarrow>
              extract_dict_literal_from_code leval (source c') v = None" by blast
      have "pre = []"
      proof (cases pre)
        case Nil then show ?thesis .
      next
        case (Cons x xs)
        then have "x = a" using p(1) by simp
        then show ?thesis using p(4) Cons d' by auto
      qed
      then show "d' = d" using p d' by auto
    next
      assume "d' = d"
      then have "a # cells = [] @ a # cells \<and> cell_type a = ''code''
        \<and> extract_dict_literal_from_code leval (source a) v = Some d" using d' by simp
      then show "?Q (a # cells)" by (metis empty_iff empty_set)
    qed
    then show ?thesis using e by auto
  qed
qed




text \<open>
  Claim C4, as amended. The extractor returns the result of the first code block, in
  document order, for which the extraction from that block alone is not \<^verbatim>\<open>None\<close>;
  later blocks are ignored. It returns \<^verbatim>\<open>None\<close> exactly when the extraction from every code
  block gives \<^verbatim>\<open>None\<close>, and the extraction from a block gives \<^verbatim>\<open>None\<close> exactly when the
  pattern does not match in it, or the matched literal does not evaluate and has no
  balanced brace span.
\<close>

theorem extractor_first_result:
  "(extract_lab_summary leval cells v = None \<longleftrightarrow>
      (\<forall>c \<in> set cells. cell_type c = ''code'' \<longrightarrow>
         extract_dict_literal_from_code leval (source c) v = None))
   \<and> (extract_lab_summary leval cells v = Some d \<longleftrightarrow>
      (\<exists>pre c post. cells = pre @ c # post \<and> cell_type c = ''code''
         \<and> extract_dict_literal_from_code leval (source c) v = Some d
         \<and> (\<forall>c' \<in> set pre. cell_type c' = ''code'' \<longrightarrow>
               extract_dict_literal_from_code leval (source c') v = None)))
   \<and> (extract_dict_literal_from_code leval code v = None \<longleftrightarrow>
      (pattern_search v code = None
       \<or> (\<exists>raw. pattern_search v code = Some raw \<and> leval raw = None
              \<and> balanced_end raw 0 = None)))"
  using extract_lab_summary_None_iff[of leval cells v]
    extract_lab_summary_Some_iff[of leval cells v d]
    extract_dict_None_iff[of leval code v]
  by blast

text \<open>
  Five blocks: a narrative block, a block with an unbalanced literal, a block without
  the assignment, and two blocks that assign the variable; the result is that of the
  fourth block.
\<close>

theorem extractor_first_result_witness:
  "extract_lab_summary leval_ex [markdown_cell ''X = {}'', code_cell ''X = {{}'', code_cell ''y = 1'',
      code_cell ''X = {}'', code_cell ''X = {{}}''] ''X'' = Some (PDict [])
   \<and> (\<exists>pre c post. [markdown_cell ''X = {}'', code_cell ''X = {{}'', code_cell ''y = 1'',
      code_cell ''X = {}'', code_cell ''X = {{}}''] = pre @ c # post \<and> cell_type c = ''code''
         \<and> extract_dict_literal_from_code leval_ex (source c) ''X'' = Some (PDict [])
         \<and> (\<forall>c' \<in> set pre. cell_type c' = ''code'' \<longrightarrow>
               extract_dict_literal_from_code leval_ex (source c') ''X'' = None))"
proof -
  have "extract_lab_summary leval_ex [markdown_cell ''X = {}'', code_cell ''X = {{}'', code_cell ''y = 1'',
      code_cell ''X = {}'', code_cell ''X = {{}}''] ''X'' = Some (PDict [])"
    by (simp add: extract_dict_literal_from_code_def match_here_def is_space_def lbrace_def
        rbrace_def newline_def leval_ex_def balanced_end_def code_cell_def markdown_cell_def)
  then show ?thesis
    using extractor_first_result[of leval_ex "[markdown_cell ''X = {}'', code_cell ''X = {{}'', code_cell ''y = 1'',
      code_cell ''X = {}'', code_cell ''X = {{}}'']" "''X''" "PDict []" "''X''"]
    by simp
qed

text \<open>
  Claim C4 as stated fails: of two blocks that both match the pattern, the result is
  recovered from the second when the literal of the first is unbalanced, and a single
  block that matches the pattern gives \<^verbatim>\<open>None\<close>.
\<close>

theorem first_match_counterexample:
  "pattern_search ''X'' ''X = {{}'' = Some ''{{}''
   \<and> pattern_search ''X'' ''X = {}'' = Some ''{}''
   \<and> extract_dict_literal_from_code leval_ex ''X = {{}'' ''X'' = None
   \<and> extract_lab_summary leval_ex [code_cell ''X = {{}'', code_cell ''X = {}''] ''X'' = Some (PDict [])
   \<and> extract_lab_summary leval_ex [code_cell ''X = {{}''] ''X'' = None"
  by (simp add: extract_dict_literal_from_code_def match_here_def is_space_def lbrace_def
      rbrace_def newline_def leval_ex_def balanced_end_def code_cell_def)

subsection \<open>The blocks of the validator\<close>

lemma then_do_Inr_iff:
  "then_do m f = Inr r \<longleftrightarrow> (\<exists>x. m = Inr x \<and> f x = Inr r)"
  by (cases m) (simp_all add: then_do_def)

lemma missing_keys_of_simps:
  "missing_keys_of [] = []"
  "missing_keys_of (xs @ ys) = missing_keys_of xs @ missing_keys_of ys"
  "missing_keys_of (m # ms) = missing_key_name m @ missing_keys_of ms"
  by (simp_all add: missing_keys_of_def)

lemma missing_keys_of_require_keys:
  "missing_keys_of (require_keys d ks) = filter (\<lambda>k. \<not> has_key d k) ks"
  by (induction ks) (simp_all add: missing_keys_of_simps)

lemma extends_refl: "extends r r"
  by (simp add: extends_def missing_keys_of_simps)

lemma extends_trans: "extends a b \<Longrightarrow> extends b c \<Longrightarrow> extends a c"
  by (auto simp: extends_def missing_keys_of_simps)

lemma extends_add_error: "missing_key_name m = [] \<Longrightarrow> extends r (add_error m r)"
  by (simp add: extends_def add_error_def missing_keys_of_simps)

lemma extends_add_warning: "extends r (add_warning m r)"
  by (simp add: extends_def add_warning_def missing_keys_of_simps)

lemma require_number_range_not_missing:
  "require_number_range d key lo hi = Some m \<Longrightarrow> missing_key_name m = []"
  by (auto simp: require_number_range_def split: option.splits if_splits)

lemma extends_append_opt_error:
  "extends r (append_opt_error (require_number_range d key lo hi) r)"
proof (cases "require_number_range d key lo hi")
  case None
  then show ?thesis by (simp add: append_opt_error_def extends_refl)
next
  case (Some m)
  then show ?thesis
    by (simp add: append_opt_error_def extends_add_error require_number_range_not_missing)
qed

lemma check_ranges_extends:
  assumes "check_ranges rls d r = Inr r'" shows "extends r r'"
proof -
  from assms obtain plo phi alo ahi where
    r': "r' = append_opt_error (require_number_range d ''alpha'' alo ahi)
               (append_opt_error (require_number_range d ''pvalue'' plo phi) r)"
    by (auto simp: check_ranges_def Let_def then_do_Inr_iff)
  show ?thesis unfolding r'
    by (rule extends_trans[OF extends_append_opt_error extends_append_opt_error])
qed

lemma check_clean_shape_extends:
  "check_clean_shape rls d r = Inr r' \<Longrightarrow> extends r r'"
  by (auto simp: check_clean_shape_def Let_def then_do_Inr_iff
           intro: extends_refl extends_add_error extends_add_warning
           split: option.splits if_splits)

lemma check_effect_extends: "extends r (check_effect d r)"
  by (auto simp: check_effect_def
           intro: extends_refl extends_add_error
           split: option.splits pyval.splits)

lemma check_ci_extends: "extends r (check_ci rls d r)"
  by (auto simp: check_ci_def
           intro: extends_refl extends_add_error
           split: option.splits)

lemma check_filters_extends: "check_filters rls d r = Inr r' \<Longrightarrow> extends r r'"
  by (auto simp: check_filters_def Let_def
           intro: extends_refl extends_add_error extends_add_warning
           split: pyval.splits if_splits)

lemma check_charts_extends: "check_charts rls d r = Inr r' \<Longrightarrow> extends r r'"
  by (auto simp: check_charts_def Let_def then_do_Inr_iff
           intro: extends_refl extends_add_error extends_add_warning
           split: pyval.splits if_splits)

lemma check_dashboard_extends: "check_dashboard rls d r = Inr r' \<Longrightarrow> extends r r'"
  by (auto simp: check_dashboard_def then_do_Inr_iff
           intro: extends_refl extends_add_error
           dest: check_filters_extends check_charts_extends extends_trans
           split: option.splits pyval.splits)

lemma check_student_extends: "extends r (check_student d r)"
  by (auto simp: check_student_def
           intro: extends_refl extends_add_warning
           split: option.splits pyval.splits)


lemma structural_checks_Inr:
  assumes "structural_checks spec d r0 = Inr r"
  shows "\<exists>r1 r2 r3.
           check_ranges (get_or (rules spec) empty_rules) d (check_required_keys spec d r0) = Inr r1
         \<and> check_clean_shape (get_or (rules spec) empty_rules) d r1 = Inr r2
         \<and> check_dashboard (get_or (rules spec) empty_rules) d
              (check_ci (get_or (rules spec) empty_rules) d (check_effect d r2)) = Inr r3
         \<and> r = final_status (check_student d r3)"
  using assms by (auto simp: structural_checks_def Let_def then_do_Inr_iff)

lemma final_status_fields:
  "errors (final_status r) = errors r"
  "warnings (final_status r) = warnings r"
  "status (final_status r) = FAIL \<longleftrightarrow> errors r \<noteq> []"
  "errors r \<noteq> [] \<Longrightarrow> score (final_status r) = 0"
  "errors r = [] \<Longrightarrow> score (final_status r) = score_of_warnings (length (warnings r))"
  "errors r = [] \<Longrightarrow> status (final_status r) = PASS"
  by (simp_all add: final_status_def)

lemma validate_lab01_dict:
  "\<not> sentinel_like d \<Longrightarrow> validate_lab01 (Some (PDict d)) spec r = structural_checks spec d r"
  by (simp add: validate_lab01_def sentinel_like_def)

lemma validate_lab01_invariant:
  assumes "validate_lab01 summary spec r0 = Inr r"
  shows "(status r = FAIL \<longleftrightarrow> errors r \<noteq> []) \<and> (status r = FAIL \<longrightarrow> score r = 0)"
proof (cases summary)
  case None
  then show ?thesis using assms by (auto simp: validate_lab01_def add_error_def)
next
  case (Some s)
  show ?thesis
  proof (cases s)
    case (PDict d)
    show ?thesis
    proof (cases "sentinel_like d")
      case True
      then show ?thesis using assms Some PDict
        by (auto simp: validate_lab01_def sentinel_like_def add_error_def)
    next
      case False
      then have "structural_checks spec d r0 = Inr r"
        using assms Some PDict by (simp add: validate_lab01_dict)
      then obtain r3 where "r = final_status r3"
        using structural_checks_Inr by blast
      then show ?thesis by (auto simp: final_status_def)
    qed
  qed (use assms Some in \<open>simp_all add: validate_lab01_def\<close>)
qed

lemma validate_report_Inr:
  assumes "validate_report rxc nb spec r = Inr r'"
  shows "status r' = status r \<and> score r' = score r \<and> errors r' = errors r
       \<and> (warnings r' = warnings r \<or> (\<exists>wc n. warnings r' = warnings r @ [ReportShort wc n]))"
  using assms
  by (auto simp: validate_report_def Let_def then_do_Inr_iff add_warning_def
           split: if_splits option.splits)

lemma count_missing_key:
  "count_list ms (MissingKey k) = count_list (missing_keys_of ms) k"
proof (induction ms)
  case Nil
  then show ?case by (simp add: missing_keys_of_simps)
next
  case (Cons m ms)
  then show ?case by (cases m) (simp_all add: missing_keys_of_simps)
qed

lemma structural_checks_missing_keys:
  assumes "structural_checks spec d r0 = Inr r"
  shows "missing_keys_of (errors r) =
           missing_keys_of (errors r0) @ filter (\<lambda>k. \<not> has_key d k) (get_or (required_keys spec) [])"
proof -
  let ?rls = "get_or (rules spec) empty_rules"
  from structural_checks_Inr[OF assms] obtain r1 r2 r3 where
    a: "check_ranges ?rls d (check_required_keys spec d r0) = Inr r1"
    and b: "check_clean_shape ?rls d r1 = Inr r2"
    and c: "check_dashboard ?rls d (check_ci ?rls d (check_effect d r2)) = Inr r3"
    and d: "r = final_status (check_student d r3)" by blast
  have "extends (check_required_keys spec d r0) r1" using a by (rule check_ranges_extends)
  moreover have "extends r1 r2" using b by (rule check_clean_shape_extends)
  moreover have "extends r2 (check_effect d r2)" by (rule check_effect_extends)
  moreover have "extends (check_effect d r2) (check_ci ?rls d (check_effect d r2))"
    by (rule check_ci_extends)
  moreover have "extends (check_ci ?rls d (check_effect d r2)) r3"
    using c by (rule check_dashboard_extends)
  moreover have "extends r3 (check_student d r3)" by (rule check_student_extends)
  ultimately have "extends (check_required_keys spec d r0) (check_student d r3)"
    by (blast intro: extends_trans)
  then have "missing_keys_of (errors (check_student d r3)) =
     missing_keys_of (errors (check_required_keys spec d r0))"
    by (auto simp: extends_def missing_keys_of_simps)
  then show ?thesis
    by (simp add: d final_status_fields check_required_keys_def missing_keys_of_simps
        missing_keys_of_require_keys)
qed

lemma count_list_filter: "count_list (filter P xs) k = (if P k then count_list xs k else 0)"
  by (induction xs) auto




lemma collect_texts_eq:
  "collect_texts rx cells acc =
     acc @ map source (filter (\<lambda>c. cell_type c = ''markdown'' \<and> rx (source c)) cells)"
  by (induction cells arbitrary: acc) simp_all

lemma strip_decomp:
  "\<exists>pre post. s = pre @ strip s @ post \<and> list_all is_space pre \<and> list_all is_space post"
proof -
  let ?t = "dropWhile is_space s"
  have a: "s = takeWhile is_space s @ ?t" by simp
  have b: "?t = strip s @ rev (takeWhile is_space (rev ?t))"
    unfolding strip_def by (metis rev_append rev_rev_ident takeWhile_dropWhile_id)
  have "s = takeWhile is_space s @ strip s @ rev (takeWhile is_space (rev ?t))"
    using a b by metis
  moreover have "list_all is_space (takeWhile is_space s)"
    by (simp add: list_all_iff) (meson set_takeWhileD)
  moreover have "list_all is_space (rev (takeWhile is_space (rev ?t)))"
    by (simp add: list_all_iff) (meson set_takeWhileD)
  ultimately show ?thesis by blast
qed

lemma strip_ends:
  "strip s \<noteq> [] \<Longrightarrow> \<not> is_space (hd (strip s)) \<and> \<not> is_space (last (strip s))"
proof -
  assume ne: "strip s \<noteq> []"
  let ?t = "dropWhile is_space s"
  let ?u = "dropWhile is_space (rev ?t)"
  have u: "?u \<noteq> []" using ne by (simp add: strip_def)
  then have hu: "\<not> is_space (hd ?u)" by (rule hd_dropWhile)
  have l: "last (strip s) = hd ?u" using u by (simp add: strip_def last_rev)
  have tne: "?t \<noteq> []" using u by (metis dropWhile.simps(1) rev.simps(1))
  then have ht: "\<not> is_space (hd ?t)" by (rule hd_dropWhile)
  have "rev ?t = takeWhile is_space (rev ?t) @ ?u" by simp
  then have "?t = rev ?u @ rev (takeWhile is_space (rev ?t))"
    by (metis rev_append rev_rev_ident)
  then have "hd ?t = hd (rev ?u)" using u by (metis hd_append2 rev_is_Nil_conv)
  then have "hd (strip s) = hd ?t" by (simp add: strip_def)
  then show ?thesis using ht hu l by simp
qed



lemmas ex_defs = grade_one_def GradeResult_def get_or_def report_only_spec_def
  code_cell_def markdown_cell_def extract_dict_literal_from_code_def match_here_def is_space_def lbrace_def
  rbrace_def newline_def leval_ex_def balanced_end_def validate_lab01_def
  structural_checks_def check_required_keys_def check_ranges_def check_clean_shape_def
  check_effect_def check_ci_def check_dashboard_def check_student_def report_min_words_def
  final_status_def validate_report_def then_do_def dict_get_def empty_rules_def
  empty_report_def default_range_def append_opt_error_def require_number_range_def
  find_markdown_section_text_def strip_def count_words_def add_warning_def add_error_def
  rx_literal_def score_of_warnings_def

lemmas ex_defs2 = pvalue_spec_def has_key_def sentinel_like_def range_bounds.simps

subsection \<open>The claims about validation\<close>

text \<open>
  Claim C1 fails on the code. On a submission whose summary is the empty dict and
  whose notebook has no report, under a spec that asks for a report of five words,
  no error is recorded and the only warning is that of the report check; the score
  stays 1, although the scoring formula gives 19/20 for one warning.
  \<^verbatim>\<open>validate_lab01\<close> computes the score before \<^verbatim>\<open>validate_report\<close> appends its
  warning.
\<close>

theorem report_warning_not_scored:
  "grade_one leval_ex rx_literal report_only_spec ''lab01'' ''ana'' ''ana/lab01.ipynb''
     (Inr [code_cell ''LAB_SUMMARY = {}'']) =
   Inr \<lparr>student = ''ana'', path = ''ana/lab01.ipynb'', lab = ''lab01'', status = PASS,
        score = 1, errors = [], warnings = [ReportShort 0 5]\<rparr>
   \<and> score_of_warnings (length [ReportShort 0 5]) = 19 / 20"
  by (simp add: ex_defs)




text \<open>
  Claim C3. In every result that the loop of \<^verbatim>\<open>main\<close> produces for one
  submission, the status is FAIL exactly when the error list is not empty, and the
  score is 0 whenever the status is FAIL.
\<close>

theorem status_fail_iff_errors:
  assumes "grade_one leval rxc spec lab_name st p nb_read = Inr r"
  shows "(status r = FAIL \<longleftrightarrow> errors r \<noteq> []) \<and> (status r = FAIL \<longrightarrow> score r = 0)"
proof (cases nb_read)
  case (Inl e)
  then show ?thesis using assms
    by (auto simp: grade_one_def GradeResult_def add_error_def)
next
  case (Inr nb)
  show ?thesis
  proof (cases "lab_name = ''lab01''")
    case True
    then obtain r1 where
      v: "validate_lab01 (extract_lab_summary leval nb (get_or (summary_var spec) ''LAB_SUMMARY''))
            spec (GradeResult st p lab_name) = Inr r1"
      and w: "validate_report rxc nb spec r1 = Inr r"
      using assms Inr by (auto simp: grade_one_def Let_def then_do_Inr_iff)
    from validate_report_Inr[OF w] validate_lab01_invariant[OF v] show ?thesis by simp
  next
    case False
    then show ?thesis using assms Inr
      by (auto simp: grade_one_def Let_def GradeResult_def add_error_def)
  qed
qed

text \<open>
  A notebook without the assignment: FAIL, one error, score 0.
\<close>

theorem status_fail_iff_errors_witness:
  "\<exists>r. grade_one leval_ex rx_literal report_only_spec ''lab01'' ''ana'' ''ana/lab01.ipynb''
          (Inr [code_cell ''x = 1'']) = Inr r
       \<and> status r = FAIL \<and> errors r \<noteq> [] \<and> score r = 0"
proof -
  have e: "grade_one leval_ex rx_literal report_only_spec ''lab01'' ''ana'' ''ana/lab01.ipynb''
     (Inr [code_cell ''x = 1'']) =
   Inr \<lparr>student = ''ana'', path = ''ana/lab01.ipynb'', lab = ''lab01'', status = FAIL,
        score = 0, errors = [NotFound], warnings = [ReportShort 0 5]\<rparr>"
    by (simp add: ex_defs)
  from status_fail_iff_errors[OF e] e show ?thesis by simp
qed

text \<open>
  Claim C5, as amended. For a parsed summary that is a dict without a true
  \<^verbatim>\<open>__parse_error__\<close> entry, if validation returns, the missing-key errors of the
  result name exactly the entries of \<^verbatim>\<open>required_keys\<close> that the summary omits, in
  order and once per entry; no missing-key error names a key that is present; and
  the status is FAIL with score 0 when some required key is omitted.
\<close>

theorem missing_key_errors:
  assumes "validate_lab01 (Some (PDict d)) spec (GradeResult st p l) = Inr r"
    and "\<not> sentinel_like d"
  shows "missing_keys_of (errors r) = filter (\<lambda>k. \<not> has_key d k) (get_or (required_keys spec) [])
       \<and> (\<forall>k. count_list (errors r) (MissingKey k) =
                (if has_key d k then 0 else count_list (get_or (required_keys spec) []) k))
       \<and> ((\<exists>k \<in> set (get_or (required_keys spec) []). \<not> has_key d k) \<longrightarrow>
             status r = FAIL \<and> score r = 0)"
proof -
  let ?req = "get_or (required_keys spec) []"
  have s: "structural_checks spec d (GradeResult st p l) = Inr r"
    using assms by (simp add: validate_lab01_dict)
  have m: "missing_keys_of (errors r) = filter (\<lambda>k. \<not> has_key d k) ?req"
    using structural_checks_missing_keys[OF s]
    by (simp add: GradeResult_def missing_keys_of_simps)
  have c: "\<forall>k. count_list (errors r) (MissingKey k) =
                (if has_key d k then 0 else count_list ?req k)"
    by (simp add: count_missing_key m count_list_filter)
  have f: "(\<exists>k \<in> set ?req. \<not> has_key d k) \<longrightarrow> status r = FAIL \<and> score r = 0"
  proof
    assume "\<exists>k \<in> set ?req. \<not> has_key d k"
    then have "filter (\<lambda>k. \<not> has_key d k) ?req \<noteq> []" by (auto simp: filter_empty_conv)
    then have "errors r \<noteq> []" using m by (auto simp: missing_keys_of_simps)
    moreover obtain r3 where "r = final_status r3"
      using structural_checks_Inr[OF s] by blast
    ultimately show "status r = FAIL \<and> score r = 0" by (auto simp: final_status_def)
  qed
  show ?thesis using m c f by blast
qed

text \<open>
  A summary with \<^verbatim>\<open>alpha\<close> only, where \<^verbatim>\<open>pvalue\<close> and \<^verbatim>\<open>alpha\<close> are required.
\<close>

theorem missing_key_errors_witness:
  "validate_lab01 (Some (PDict [(PStr ''alpha'', PFloat (Fin (1 / 20)))])) pvalue_spec
     (GradeResult ''ana'' ''p'' ''lab01'') =
     Inr \<lparr>student = ''ana'', path = ''p'', lab = ''lab01'', status = FAIL, score = 0,
          errors = [MissingKey ''pvalue''], warnings = []\<rparr>
   \<and> count_list [MissingKey ''pvalue''] (MissingKey ''pvalue'') = 1
   \<and> count_list [MissingKey ''pvalue''] (MissingKey ''alpha'') = 0"
proof -
  have e: "validate_lab01 (Some (PDict [(PStr ''alpha'', PFloat (Fin (1 / 20)))])) pvalue_spec
     (GradeResult ''ana'' ''p'' ''lab01'') =
     Inr \<lparr>student = ''ana'', path = ''p'', lab = ''lab01'', status = FAIL, score = 0,
          errors = [MissingKey ''pvalue''], warnings = []\<rparr>"
    by (simp add: ex_defs ex_defs2)
  have n: "\<not> sentinel_like [(PStr ''alpha'', PFloat (Fin (1 / 20)))]"
    by (simp add: sentinel_like_def dict_get_def)
  from missing_key_errors[OF e n] e show ?thesis by simp
qed

text \<open>
  Claim C5 as stated fails: a parsed summary with a true \<^verbatim>\<open>__parse_error__\<close> entry
  omits the required key \<^verbatim>\<open>pvalue\<close>, and validation records the parse error and no
  missing-key error.
\<close>

theorem missing_key_counterexample:
  "validate_lab01 (Some (PDict [(PStr ''__parse_error__'', PInt 1), (PStr ''alpha'', PInt 0)]))
     pvalue_spec (GradeResult ''ana'' ''p'' ''lab01'') =
     Inr \<lparr>student = ''ana'', path = ''p'', lab = ''lab01'', status = FAIL, score = 0,
          errors = [Unparseable], warnings = []\<rparr>
   \<and> required_keys pvalue_spec = Some [''pvalue'', ''alpha'']
   \<and> \<not> has_key [(PStr ''__parse_error__'', PInt 1), (PStr ''alpha'', PInt 0)] ''pvalue''
   \<and> count_list [Unparseable] (MissingKey ''pvalue'') = 0"
  by (simp add: ex_defs ex_defs2)



text \<open>
  Claim C8. The section finder returns the texts of the markdown blocks that the
  pattern matches, in document order, joined by a blank line, with the whitespace at
  both ends removed; it returns the empty string when no block matches.
\<close>

theorem section_finder:
  "find_markdown_section_text rx cells =
     strip (join_blank (map source
       (filter (\<lambda>c. cell_type c = ''markdown'' \<and> rx (source c)) cells)))
   \<and> ((\<forall>c \<in> set cells. \<not> (cell_type c = ''markdown'' \<and> rx (source c))) \<longrightarrow>
        find_markdown_section_text rx cells = [])
   \<and> (\<exists>pre post.
        join_blank (map source (filter (\<lambda>c. cell_type c = ''markdown'' \<and> rx (source c)) cells))
          = pre @ find_markdown_section_text rx cells @ post
        \<and> list_all is_space pre \<and> list_all is_space post)
   \<and> (find_markdown_section_text rx cells \<noteq> [] \<longrightarrow>
        \<not> is_space (hd (find_markdown_section_text rx cells))
        \<and> \<not> is_space (last (find_markdown_section_text rx cells)))"
proof -
  let ?ts = "map source (filter (\<lambda>c. cell_type c = ''markdown'' \<and> rx (source c)) cells)"
  have a: "find_markdown_section_text rx cells = strip (join_blank ?ts)"
    by (simp add: find_markdown_section_text_def collect_texts_eq)
  have b: "(\<forall>c \<in> set cells. \<not> (cell_type c = ''markdown'' \<and> rx (source c))) \<longrightarrow>
        find_markdown_section_text rx cells = []"
  proof
    assume "\<forall>c \<in> set cells. \<not> (cell_type c = ''markdown'' \<and> rx (source c))"
    then have "filter (\<lambda>c. cell_type c = ''markdown'' \<and> rx (source c)) cells = []"
      by (simp add: filter_empty_conv)
    then show "find_markdown_section_text rx cells = []" using a by (simp add: strip_def)
  qed
  show ?thesis using a b strip_decomp[of "join_blank ?ts"] strip_ends[of "join_blank ?ts"]
    by simp
qed

text \<open>
  Four blocks, of which two markdown blocks match; and two blocks of which none does.
\<close>

theorem section_finder_witness:
  "find_markdown_section_text rx_reporte
     [code_cell ''# Reporte'', markdown_cell '' # Reporte uno '', markdown_cell ''otra'',
      markdown_cell ''REPORTE dos''] = ''# Reporte uno '' @ [newline, newline] @ ''REPORTE dos''
   \<and> find_markdown_section_text rx_reporte [code_cell ''# Reporte'', markdown_cell ''otra''] = []"
proof -
  have e: "strip (join_blank (map source (filter (\<lambda>c. cell_type c = ''markdown'' \<and> rx_reporte (source c))
     [code_cell ''# Reporte'', markdown_cell '' # Reporte uno '', markdown_cell ''otra'',
      markdown_cell ''REPORTE dos'']))) = ''# Reporte uno '' @ [newline, newline] @ ''REPORTE dos''"
    by code_simp
  have f: "\<forall>c \<in> set [code_cell ''# Reporte'', markdown_cell ''otra''].
             \<not> (cell_type c = ''markdown'' \<and> rx_reporte (source c))"
    by code_simp
  have g: "find_markdown_section_text rx_reporte
     [code_cell ''# Reporte'', markdown_cell '' # Reporte uno '', markdown_cell ''otra'',
      markdown_cell ''REPORTE dos''] = ''# Reporte uno '' @ [newline, newline] @ ''REPORTE dos''"
    using section_finder[of rx_reporte "[code_cell ''# Reporte'', markdown_cell '' # Reporte uno '',
      markdown_cell ''otra'', markdown_cell ''REPORTE dos'']", THEN conjunct1] e
    by (simp only:)
  have h: "find_markdown_section_text rx_reporte [code_cell ''# Reporte'', markdown_cell ''otra''] = []"
    using section_finder[of rx_reporte "[code_cell ''# Reporte'', markdown_cell ''otra'']",
        THEN conjunct2, THEN conjunct1] f
    by blast
  show ?thesis using g h by blast
qed

text \<open>
  Claim C9. A parsed summary that binds \<^verbatim>\<open>__parse_error__\<close> to a true value is
  validated as the sentinel is: FAIL, score 0, the single parse error, no warning,
  and none of the structural checks.
\<close>

theorem parse_error_key_is_sentinel:
  assumes "dict_get d ''__parse_error__'' = Some v" and "truthy v"
  shows "validate_lab01 (Some (PDict d)) spec (GradeResult st p l) =
           Inr \<lparr>student = st, path = p, lab = l, status = FAIL, score = 0,
                errors = [Unparseable], warnings = []\<rparr>
       \<and> validate_lab01 (Some (PDict d)) spec r = validate_lab01 (Some parse_error_sentinel) spec r"
  using assms
  by (simp add: validate_lab01_def GradeResult_def add_error_def parse_error_sentinel_def
      dict_get_def)

text \<open>
  A summary with \<^verbatim>\<open>__parse_error__\<close> bound to 1 and a \<^verbatim>\<open>pvalue\<close> that is not a number.
\<close>

theorem parse_error_key_is_sentinel_witness:
  "validate_lab01 (Some (PDict [(PStr ''__parse_error__'', PInt 1), (PStr ''pvalue'', PStr ''x'')]))
     pvalue_spec (GradeResult ''ana'' ''p'' ''lab01'') =
           Inr \<lparr>student = ''ana'', path = ''p'', lab = ''lab01'', status = FAIL, score = 0,
                errors = [Unparseable], warnings = []\<rparr>"
proof -
  have a: "dict_get [(PStr ''__parse_error__'', PInt 1), (PStr ''pvalue'', PStr ''x'')]
             ''__parse_error__'' = Some (PInt 1)" by (simp add: dict_get_def)
  have b: "truthy (PInt 1)" by simp
  from parse_error_key_is_sentinel[OF a b, of pvalue_spec "''ana''" "''p''" "''lab01''"]
  show ?thesis by blast
qed



end
